theory Spec2Isabelle
  imports Complex_Main "HOL-Library.Word"
begin

section \<open>Numbers and byte arrays\<close>

text \<open>
  The program is TypeScript. A JavaScript number is modelled as an exact real; the one
  non-number the modelled code can produce, NaN (from \<open>0 / 0\<close> or from arithmetic on
  \<open>undefined\<close>), is \<open>None\<close> of \<open>real option\<close>. A \<open>Uint8Array\<close> is a list of
  8-bit words, read as numbers with \<open>unat\<close>.
\<close>

type_synonym byte = "8 word"

definition num :: "byte \<Rightarrow> real" where
  "num b = real (unat b)"

text \<open>
  JavaScript's \<open>x % y\<close> on numbers: the remainder has the sign of the dividend (the
  quotient is truncated towards zero). Every divisor in the modelled code is a non-zero
  constant.
\<close>

definition js_rem :: "real \<Rightarrow> real \<Rightarrow> real" where
  "js_rem x y = x - y * of_int (if 0 \<le> x / y then \<lfloor>x / y\<rfloor> else \<lceil>x / y\<rceil>)"

section \<open>analyzer.ts: AudioAnalyzer.getAnalysisData\<close>

record AudioAnalysisData =
  frequencyData :: "byte list"
  waveformData :: "byte list"
  timeDomainData :: "byte list"
  averageFrequency :: "real option"
  peaks :: "nat list"
  bpm :: "real option"
  instrumentPrediction :: "string option"

text \<open>
  \<^verbatim>\<open>let sum = 0; for (let i = 0; i < data.length; i++) { sum += data[i]; }\<close>
\<close>

function sum_loop :: "byte list \<Rightarrow> nat \<Rightarrow> real \<Rightarrow> real" where
  "sum_loop data i acc =
     (if i < length data then sum_loop data (i + 1) (acc + num (data ! i)) else acc)"
  by pat_completeness auto
termination
  by (relation "measure (\<lambda>(data, i, acc). length data - i)") auto

declare sum_loop.simps [simp del]

text \<open>
  \<^verbatim>\<open>const averageFrequency = sum / data.length;\<close> For an empty array this is
  \<open>0 / 0\<close>, which is NaN.
\<close>

definition average_frequency :: "byte list \<Rightarrow> real option" where
  "average_frequency data =
     (let total = sum_loop data 0 0 in
      if length data = 0 then None else Some (total / real (length data)))"

text \<open>
  \<^verbatim>\<open>for (let i = 1; i < data.length - 1; i++) {
    if (data[i] > data[i - 1] && data[i] > data[i + 1] && data[i] > 200) peaks.push(i); }\<close>
  The bound \<open>data.length - 1\<close> is \<open>-1\<close> for an empty array, so it is computed in
  \<open>int\<close>.
\<close>

definition is_peak :: "byte list \<Rightarrow> nat \<Rightarrow> bool" where
  "is_peak data i \<longleftrightarrow>
     num (data ! i) > num (data ! (i - 1)) \<and> num (data ! i) > num (data ! (i + 1)) \<and>
     num (data ! i) > 200"

function peaks_loop :: "byte list \<Rightarrow> nat \<Rightarrow> nat list \<Rightarrow> nat list" where
  "peaks_loop data i ps =
     (if int i < int (length data) - 1
      then peaks_loop data (i + 1) (if is_peak data i then ps @ [i] else ps)
      else ps)"
  by pat_completeness auto
termination
  by (relation "measure (\<lambda>(data, i, ps). length data - i)") auto

declare peaks_loop.simps [simp del]

definition detect_peaks :: "byte list \<Rightarrow> nat list" where
  "detect_peaks data = peaks_loop data 1 []"

text \<open>
  The analyser state after \<open>getByteFrequencyData\<close> and \<open>getByteTimeDomainData\<close> have
  filled the two arrays: \<open>None\<close> stands for a field that is \<open>null\<close> because the audio
  context could not be created.
\<close>

record AudioAnalyzer =
  analyserNode :: bool
  analyzerFrequencyData :: "byte list option"
  analyzerTimeDomainData :: "byte list option"

definition getAnalysisData :: "AudioAnalyzer \<Rightarrow> AudioAnalysisData option" where
  "getAnalysisData a =
     (case (analyserNode a, analyzerFrequencyData a, analyzerTimeDomainData a) of
        (True, Some fd, Some td) \<Rightarrow>
          Some \<lparr> frequencyData = fd, waveformData = fd, timeDomainData = td,
                 averageFrequency = average_frequency fd, peaks = detect_peaks fd,
                 bpm = None, instrumentPrediction = None \<rparr>
      | _ \<Rightarrow> None)"

text \<open>An analyser whose nodes exist and whose frequency array holds \<open>fd\<close>.\<close>

definition analyzer_with :: "byte list \<Rightarrow> byte list \<Rightarrow> AudioAnalyzer" where
  "analyzer_with fd td =
     \<lparr> analyserNode = True, analyzerFrequencyData = Some fd, analyzerTimeDomainData = Some td \<rparr>"

section \<open>getBassEnergy\<close>

text \<open>
  The same method is in holiday.ts (line 1967), rectangular.ts and base3d.ts.
  \<^verbatim>\<open>const bassRange = Math.floor(frequencyData.length * 0.1);\<close> The length is a
  natural number, so the floor of a tenth of it is \<open>length div 10\<close>.
  The loop accumulates the weighted energy and the weight sum:
  \<^verbatim>\<open>for (let i = 0; i < bassRange; i++) {
    const frequencyWeight = 1 - (i / bassRange) * 0.7;
    energy += (frequencyData[i] / 255) * frequencyWeight;
    weight += frequencyWeight; }\<close>
\<close>

definition frequencyWeight :: "nat \<Rightarrow> nat \<Rightarrow> real" where
  "frequencyWeight i bassRange = 1 - (real i / real bassRange) * 0.7"

function bass_loop :: "byte list \<Rightarrow> nat \<Rightarrow> nat \<Rightarrow> real \<times> real \<Rightarrow> real \<times> real" where
  "bass_loop data bassRange i (energy, weight) =
     (if i < bassRange
      then bass_loop data bassRange (i + 1)
             (energy + (num (data ! i) / 255) * frequencyWeight i bassRange,
              weight + frequencyWeight i bassRange)
      else (energy, weight))"
  by pat_completeness auto
termination
  by (relation "measure (\<lambda>(data, bassRange, i, acc). bassRange - i)") auto

declare bass_loop.simps [simp del]

text \<open>
  \<^verbatim>\<open>const normalizedEnergy = energy / weight; return Math.pow(normalizedEnergy, 1.5);\<close>
  There is no test of \<open>weight\<close>: when the loop body never ran both sums are 0 and the
  quotient is NaN, which \<open>Math.pow\<close> returns unchanged. (Every weight is at least
  0.3, so the weight sum is 0 only then.)
\<close>

definition getBassEnergy :: "byte list \<Rightarrow> real option" where
  "getBassEnergy data =
     (let bassRange = length data div 10;
          (energy, weight) = bass_loop data bassRange 0 (0, 0)
      in if weight = 0 then None else Some ((energy / weight) powr 1.5))"

section \<open>player.ts: AudioPlayer\<close>

text \<open>
  An \<open>AudioBufferSourceNode\<close> is single-use; the model gives each one created an
  identity and records the buffer offset it was started at. An \<open>AudioBuffer\<close> is
  represented by its duration, the \<open>GainNode\<close> by its gain value. The engine clock
  \<open>audioContext.currentTime\<close> is an argument \<open>now\<close> of the methods that read it.
\<close>

record SourceNode =
  sourceId :: nat
  startOffset :: real

record AudioPlayer =
  sourceNode :: "SourceNode option"
  gainNode :: "real option"
  playerAnalyserNode :: bool
  currentBuffer :: "real option"
  startTime :: real
  pauseTime :: real
  isPlaying :: bool
  sourcesCreated :: nat
  contextClosed :: bool

text \<open>The constructor: field initialisers, then \<open>setupAudioGraph\<close>.\<close>

definition newAudioPlayer :: AudioPlayer where
  "newAudioPlayer =
     \<lparr> sourceNode = None, gainNode = Some 1.0, playerAnalyserNode = True,
       currentBuffer = None, startTime = 0, pauseTime = 0, isPlaying = False,
       sourcesCreated = 0, contextClosed = False \<rparr>"

definition loadAudio :: "real \<Rightarrow> AudioPlayer \<Rightarrow> AudioPlayer" where
  "loadAudio buffer p = p\<lparr>currentBuffer := Some buffer\<rparr>"

definition stop :: "AudioPlayer \<Rightarrow> AudioPlayer" where
  "stop p =
     (if sourceNode p = None then p
      else p\<lparr>sourceNode := None, isPlaying := False, pauseTime := 0\<rparr>)"

definition getCurrentTime :: "real \<Rightarrow> AudioPlayer \<Rightarrow> real" where
  "getCurrentTime now p = (if \<not> isPlaying p then pauseTime p else now - startTime p)"

definition play :: "real \<Rightarrow> AudioPlayer \<Rightarrow> AudioPlayer" where
  "play now p =
     (if currentBuffer p = None \<or> \<not> playerAnalyserNode p then p
      else
        let p1 = (if isPlaying p then stop p else p);
            created = sourcesCreated p1;
            p2 = p1\<lparr>sourcesCreated := created + 1\<rparr>;
            p3 = (if pauseTime p2 > 0
                  then p2\<lparr>sourceNode := Some \<lparr>sourceId = created, startOffset = pauseTime p2\<rparr>,
                          startTime := now - pauseTime p2\<rparr>
                  else p2\<lparr>sourceNode := Some \<lparr>sourceId = created, startOffset = 0\<rparr>,
                          startTime := now\<rparr>)
        in p3\<lparr>isPlaying := True\<rparr>)"

text \<open>
  The handler that \<open>play\<close> installs on every source it creates:
  \<^verbatim>\<open>this.sourceNode.onended = () => { this.isPlaying = false; this.pauseTime = 0; };\<close>
  The browser calls it when that source reaches the end of the buffer and also after the
  source was stopped with \<open>stop()\<close>; the argument is the source whose event fires.
  The handler does not look at it.
\<close>

definition onended :: "nat \<Rightarrow> AudioPlayer \<Rightarrow> AudioPlayer" where
  "onended source p = p\<lparr>isPlaying := False, pauseTime := 0\<rparr>"

definition pause :: "real \<Rightarrow> AudioPlayer \<Rightarrow> AudioPlayer" where
  "pause now p =
     (if \<not> isPlaying p \<or> sourceNode p = None then p
      else p\<lparr>pauseTime := getCurrentTime now p, sourceNode := None, isPlaying := False\<rparr>)"

definition getDuration :: "AudioPlayer \<Rightarrow> real" where
  "getDuration p = (case currentBuffer p of Some duration \<Rightarrow> duration | None \<Rightarrow> 0)"

definition setVolume :: "real \<Rightarrow> AudioPlayer \<Rightarrow> AudioPlayer" where
  "setVolume volume p =
     (case gainNode p of
        Some g \<Rightarrow> (let clampedVolume = max 0 (min 1 volume) in p\<lparr>gainNode := Some clampedVolume\<rparr>)
      | None \<Rightarrow> p)"

definition seekTo :: "real \<Rightarrow> real \<Rightarrow> AudioPlayer \<Rightarrow> AudioPlayer" where
  "seekTo now time p =
     (case currentBuffer p of
        None \<Rightarrow> p
      | Some duration \<Rightarrow>
          let clampedTime = max 0 (min duration time);
              wasPlaying = isPlaying p;
              p1 = (if isPlaying p then stop p else p);
              p2 = p1\<lparr>pauseTime := clampedTime\<rparr>
          in if wasPlaying then play now p2 else p2)"

definition close :: "AudioPlayer \<Rightarrow> AudioPlayer" where
  "close p = (let p1 = stop p in if contextClosed p1 then p1 else p1\<lparr>contextClosed := True\<rparr>)"

text \<open>
  What can happen to a player: the engine clock advances, a method is called, or the
  ended event of a source that \<open>play\<close> created fires. A configuration is the clock
  together with the player.
\<close>

datatype player_event =
    Tick real
  | LoadAudio real
  | Play
  | Pause
  | Stop
  | SeekTo real
  | SetVolume real
  | Ended nat
  | Close

fun player_step :: "player_event \<Rightarrow> real \<times> AudioPlayer \<Rightarrow> real \<times> AudioPlayer" where
  "player_step (Tick d) (now, p) = (now + d, p)"
| "player_step (LoadAudio buffer) (now, p) = (now, loadAudio buffer p)"
| "player_step Play (now, p) = (now, play now p)"
| "player_step Pause (now, p) = (now, pause now p)"
| "player_step Stop (now, p) = (now, stop p)"
| "player_step (SeekTo time) (now, p) = (now, seekTo now time p)"
| "player_step (SetVolume volume) (now, p) = (now, setVolume volume p)"
| "player_step (Ended source) (now, p) = (now, onended source p)"
| "player_step Close (now, p) = (now, close p)"

fun event_ok :: "player_event \<Rightarrow> real \<times> AudioPlayer \<Rightarrow> bool" where
  "event_ok (Tick d) (now, p) = (0 \<le> d)"
| "event_ok (Ended source) (now, p) = (source < sourcesCreated p)"
| "event_ok e (now, p) = True"

inductive reachable :: "real \<times> AudioPlayer \<Rightarrow> bool" where
  init: "reachable (0, newAudioPlayer)"
| step: "reachable c \<Longrightarrow> event_ok e c \<Longrightarrow> reachable (player_step e c)"

fun run_player :: "player_event list \<Rightarrow> real \<times> AudioPlayer \<Rightarrow> real \<times> AudioPlayer" where
  "run_player [] c = c"
| "run_player (e # es) c = run_player es (player_step e c)"

fun events_ok :: "player_event list \<Rightarrow> real \<times> AudioPlayer \<Rightarrow> bool" where
  "events_ok [] c = True"
| "events_ok (e # es) c = (event_ok e c \<and> events_ok es (player_step e c))"

text \<open>The state invariant of the player that the proofs below maintain.\<close>

definition player_inv :: "real \<times> AudioPlayer \<Rightarrow> bool" where
  "player_inv c =
     (case c of (now, p) \<Rightarrow>
        gainNode p \<noteq> None \<and> playerAnalyserNode p \<and> startTime p \<le> now \<and>
        (\<not> isPlaying p \<or> (sourceNode p \<noteq> None \<and> currentBuffer p \<noteq> None)))"

section \<open>App component: the ended handler installed by handlePlayPause\<close>

text \<open>
  The transport state the App component keeps in React state and refs. The handler closes
  over the source it was installed on:
  \<^verbatim>\<open>sourceNode.onended = () => {
    if (sourceNodeRef.current === sourceNode) {
      setIsPlaying(false); setIsPaused(false); setCurrentTime(0); pauseTimeRef.current = 0; } };\<close>
\<close>

record AppTransport =
  appIsPlaying :: bool
  appIsPaused :: bool
  appCurrentTime :: real
  pauseTimeRef :: real
  startTimeRef :: real
  sourceNodeRef :: "nat option"

definition app_onended :: "nat \<Rightarrow> AppTransport \<Rightarrow> AppTransport" where
  "app_onended source a =
     (if sourceNodeRef a = Some source
      then a\<lparr>appIsPlaying := False, appIsPaused := False, appCurrentTime := 0, pauseTimeRef := 0\<rparr>
      else a)"

section \<open>holiday.ts: HolidayVisualization.updateElements\<close>

datatype AnimationPattern = STATIC | BLINK | CHASE | WAVE | TWINKLE | STROBE | FADE | ALTERNATE

text \<open>
  The pattern-local \<open>state: any\<close> object of an element. A field that the element was
  created without is \<open>undefined\<close>; arithmetic on it gives NaN, so each field is a
  \<open>real option\<close> and \<open>None\<close> covers both.
\<close>

record ElementState =
  position :: "real option"
  strobePhase :: "real option"
  fadeLevel :: "real option"
  colorIndex :: "real option"
  wavePosition :: "real option"

datatype color_value = CssColor string | HslColor "real option" | UndefinedColor

text \<open>
  A light element, without the fields only the drawing code reads (\<open>type\<close>, \<open>x\<close>,
  \<open>y\<close>, \<open>width\<close>, \<open>height\<close>).
\<close>

record LightElement =
  color :: color_value
  brightness :: real
  active :: bool
  pattern :: AnimationPattern
  freqRange :: "nat \<times> nat"
  instrument :: "string option"
  points :: "(real \<times> real) list option"
  lastUpdateTime :: real
  state :: ElementState

record HolidayVisualization =
  elements :: "LightElement list"
  time :: real
  dominantInstrument :: "string option"
  currentHue :: "real option"
  colorScheme :: "string list"

definition colorTransitionSpeed :: real where
  "colorTransitionSpeed = 0.01"

definition instrumentColors :: "(string \<times> real) list" where
  "instrumentColors =
     [(''piano'', 210), (''guitar'', 120), (''bass'', 330), (''drums'', 30), (''violin'', 60),
      (''cello'', 270), (''flute'', 180), (''saxophone'', 0), (''trumpet'', 40),
      (''synthesizer'', 300), (''voice'', 150)]"

text \<open>A string-or-null value is truthy when it is a non-empty string.\<close>

definition truthy :: "string option \<Rightarrow> bool" where
  "truthy s \<longleftrightarrow> (case s of None \<Rightarrow> False | Some l \<Rightarrow> l \<noteq> [])"

text \<open>
  \<open>instrumentColors\<close> is an object literal, so \<open>instrumentColors[label]\<close> finds the
  table's own properties and, for any other name, the members that every object inherits
  from \<open>Object.prototype\<close>: functions, and for \<open>__proto__\<close> the prototype object itself.
  A name that is neither gives \<open>undefined\<close>.
\<close>

definition objectPrototypeMembers :: "string list" where
  "objectPrototypeMembers =
     [''constructor'', ''__defineGetter__'', ''__defineSetter__'', ''hasOwnProperty'',
      ''__lookupGetter__'', ''__lookupSetter__'', ''isPrototypeOf'', ''propertyIsEnumerable'',
      ''toString'', ''valueOf'', ''__proto__'', ''toLocaleString'']"

datatype property_value = NumberValue real | InheritedMember | UndefinedValue

definition instrumentColorsLookup :: "string \<Rightarrow> property_value" where
  "instrumentColorsLookup label =
     (case map_of instrumentColors label of
        Some hue \<Rightarrow> NumberValue hue
      | None \<Rightarrow> if label \<in> set objectPrototypeMembers then InheritedMember else UndefinedValue)"

text \<open>
  \<^verbatim>\<open>const targetHue = this.instrumentColors[this.dominantInstrument] || 0;\<close>
  \<open>undefined\<close> and the number 0 are falsy and give the default 0. An inherited member
  is truthy, so it becomes the target hue; it is not a number, and \<open>None\<close> stands for it:
  every arithmetic operation on it gives NaN.
\<close>

definition targetHueOf :: "string \<Rightarrow> real option" where
  "targetHueOf label =
     (case instrumentColorsLookup label of
        NumberValue hue \<Rightarrow> Some (if hue = 0 then 0 else hue)
      | UndefinedValue \<Rightarrow> Some 0
      | InheritedMember \<Rightarrow> None)"

text \<open>
  The hue transition of \<open>updateElements\<close>, on numbers:
  \<^verbatim>\<open>const diff = targetHue - this.currentHue;
  if (Math.abs(diff) > 180) {
    if (this.currentHue < targetHue) this.currentHue += 360; else this.currentHue -= 360; }
  this.currentHue += (targetHue - this.currentHue) * this.colorTransitionSpeed * (1 + intensity);
  this.currentHue = ((this.currentHue % 360) + 360) % 360;\<close>
\<close>

definition normaliseHue :: "real \<Rightarrow> real" where
  "normaliseHue hue = js_rem (js_rem hue 360 + 360) 360"

definition easeHue :: "real \<Rightarrow> real \<Rightarrow> real \<Rightarrow> real" where
  "easeHue hue targetHue intensity =
     (let diff = targetHue - hue;
          hue1 = (if \<bar>diff\<bar> > 180 then (if hue < targetHue then hue + 360 else hue - 360)
                  else hue);
          hue2 = hue1 + (targetHue - hue1) * colorTransitionSpeed * (1 + intensity)
      in normaliseHue hue2)"


text \<open>
  \<^verbatim>\<open>for (let i = minFreq; i <= maxFreq && i < data.length; i++) {
    energy += data[i] / 255; count++; }\<close>
\<close>

function energy_loop :: "byte list \<Rightarrow> nat \<Rightarrow> nat \<Rightarrow> real \<times> nat \<Rightarrow> real \<times> nat" where
  "energy_loop data maxFreq i (energy, count) =
     (if i \<le> maxFreq \<and> i < length data
      then energy_loop data maxFreq (i + 1) (energy + num (data ! i) / 255, count + 1)
      else (energy, count))"
  by pat_completeness auto
termination
  by (relation "measure (\<lambda>(data, maxFreq, i, acc). length data - i)") auto

declare energy_loop.simps [simp del]

text \<open>The energy of an element's band, boosted when the element's instrument is the dominant one.\<close>

definition bandEnergy :: "string option \<Rightarrow> byte list \<Rightarrow> LightElement \<Rightarrow> real" where
  "bandEnergy dominant data element =
     (let (minFreq, maxFreq) = freqRange element;
          (energy, count) = energy_loop data maxFreq minFreq (0, 0);
          energy1 = (if count > 0 then energy / real count else 0)
      in if truthy (instrument element) \<and> dominant = instrument element
         then energy1 * 1.5 else energy1)"

text \<open>
  \<open>updateElementAnimation\<close>. \<open>now\<close> is \<open>Date.now()\<close> and \<open>random\<close> is the value
  that \<open>Math.random()\<close> returns if the pattern draws one. A comparison with NaN is
  false. STATIC has no case in the switch.
\<close>

definition lookupColor :: "string list \<Rightarrow> real option \<Rightarrow> color_value" where
  "lookupColor scheme index =
     (case index of
        None \<Rightarrow> UndefinedColor
      | Some c \<Rightarrow>
          if 0 \<le> c \<and> c = of_int \<lfloor>c\<rfloor> \<and> nat \<lfloor>c\<rfloor> < length scheme
          then CssColor (scheme ! nat \<lfloor>c\<rfloor>) else UndefinedColor)"

definition updateElementAnimation ::
  "real \<Rightarrow> string list \<Rightarrow> real \<Rightarrow> real \<Rightarrow> LightElement \<Rightarrow> real \<Rightarrow> LightElement" where
  "updateElementAnimation visTime scheme now random element energy =
     (let e1 =
        (case pattern element of
           BLINK \<Rightarrow> element\<lparr>active := sin (visTime * 5 * energy) > 0\<rparr>
         | CHASE \<Rightarrow>
             element\<lparr>state := (state element)
               \<lparr>position := map_option (\<lambda>p. js_rem (p + energy * 0.1) 1) (position (state element))\<rparr>\<rparr>
         | TWINKLE \<Rightarrow>
             (if random < energy * 0.2 then element\<lparr>active := \<not> active element\<rparr> else element)
         | STROBE \<Rightarrow>
             (let phase = map_option (\<lambda>p. js_rem (p + energy * 0.5) 1) (strobePhase (state element))
              in element\<lparr>state := (state element)\<lparr>strobePhase := phase\<rparr>,
                         active := (case phase of None \<Rightarrow> False | Some p \<Rightarrow> p < 0.5)\<rparr>)
         | FADE \<Rightarrow>
             (let level = sin (visTime * 2 * energy) * 0.5 + 0.5
              in element\<lparr>state := (state element)\<lparr>fadeLevel := Some level\<rparr>,
                         brightness := level * energy\<rparr>)
         | ALTERNATE \<Rightarrow>
             (if random < energy * 0.1
              then
                let index = (if length scheme = 0 then None
                             else map_option (\<lambda>c. js_rem (c + 1) (real (length scheme)))
                                    (colorIndex (state element)))
                in element\<lparr>state := (state element)\<lparr>colorIndex := index\<rparr>,
                           color := lookupColor scheme index\<rparr>
              else element)
         | WAVE \<Rightarrow>
             (case points element of
                Some pts \<Rightarrow>
                  if length pts > 1
                  then element\<lparr>state := (state element)
                         \<lparr>wavePosition := Some (js_rem (visTime * energy) 1)\<rparr>\<rparr>
                  else element
              | None \<Rightarrow> element)
         | STATIC \<Rightarrow> element)
      in e1\<lparr>lastUpdateTime := now\<rparr>)"

text \<open>The body of the loop over \<open>this.elements\<close>, for one element.\<close>

definition updateElement ::
  "HolidayVisualization \<Rightarrow> byte list \<Rightarrow> real \<Rightarrow> real \<Rightarrow> LightElement \<Rightarrow> LightElement" where
  "updateElement vis data now random element =
     (let energy = bandEnergy (dominantInstrument vis) data element;
          e1 = element\<lparr>brightness := min 1 (energy * 1.5)\<rparr>;
          e2 = (if energy > 0.3 then e1\<lparr>active := True\<rparr> else e1);
          e3 = updateElementAnimation (time vis) (colorScheme vis) now random e2 energy
      in if truthy (dominantInstrument vis) \<and> instrument element = dominantInstrument vis
         then e3\<lparr>color := HslColor (currentHue vis)\<rparr> else e3)"

text \<open>
  \<open>updateElements\<close>: the hue transition when the frame carries an instrument, then the
  loop. \<open>random i\<close> is the draw available to the element at index \<open>i\<close>. NaN in the
  stored hue or in the frame's average, and a target hue that is not a number, propagate
  through the arithmetic: the comparisons are false and the stored hue becomes NaN.
\<close>

definition updateElements ::
  "HolidayVisualization \<Rightarrow> AudioAnalysisData \<Rightarrow> real \<Rightarrow> (nat \<Rightarrow> real) \<Rightarrow> HolidayVisualization" where
  "updateElements vis analysisData now random =
     (let intensity = map_option (\<lambda>a. a / 255) (averageFrequency analysisData);
          vis1 =
            (case instrumentPrediction analysisData of
               None \<Rightarrow> vis
             | Some label \<Rightarrow>
                 if label = [] then vis
                 else vis\<lparr>dominantInstrument := Some label,
                          currentHue :=
                            (case (currentHue vis, intensity, targetHueOf label) of
                               (Some hue, Some i, Some targetHue) \<Rightarrow>
                                 Some (easeHue hue targetHue i)
                             | _ \<Rightarrow> None)\<rparr>)
      in vis1\<lparr>elements :=
           map (\<lambda>(i, element). updateElement vis1 (frequencyData analysisData) now (random i) element)
             (enumerate 0 (elements vis1))\<rparr>)"

text \<open>
  Two of the elements that \<open>createOrnaments\<close> puts into the scene, as created (with
  \<open>lastUpdateTime\<close> 0 for \<open>Date.now()\<close>): the star and the gift box.
\<close>

definition star :: LightElement where
  "star =
     \<lparr> color = CssColor ''yellow'', brightness = 1, active = True, pattern = STROBE,
       freqRange = (100, 120), instrument = Some ''synthesizer'', points = None,
       lastUpdateTime = 0,
       state = \<lparr> position = None, strobePhase = Some 0, fadeLevel = None, colorIndex = None,
                 wavePosition = None \<rparr> \<rparr>"

definition gift :: LightElement where
  "gift =
     \<lparr> color = CssColor ''red'', brightness = 1, active = True, pattern = ALTERNATE,
       freqRange = (50, 100), instrument = Some ''cello'', points = None,
       lastUpdateTime = 0,
       state = \<lparr> position = None, strobePhase = None, fadeLevel = None, colorIndex = Some 0,
                 wavePosition = None \<rparr> \<rparr>"

text \<open>A frame whose 1024 frequency bins are all at full scale, without an instrument label.\<close>

definition fullScaleFrame :: AudioAnalysisData where
  "fullScaleFrame =
     \<lparr> frequencyData = replicate 1024 255, waveformData = replicate 1024 0,
       timeDomainData = replicate 1024 128, averageFrequency = Some 255, peaks = [],
       bpm = None, instrumentPrediction = None \<rparr>"

text \<open>A source of random draws that returns the same value at every draw.\<close>

definition constantDraws :: "real \<Rightarrow> nat \<Rightarrow> real" where
  "constantDraws r i = r"

section \<open>Visualizer component: switching visualisations\<close>

datatype VisualizationType =
  SPECTRUM | WAVEFORM | PARTICLES | COSMIC | PSYCHEDELIC | SUNBURST | RECTANGULAR | HOLIDAY
  | HOLIDAY_3D

text \<open>
  Calls received by visualisation instances, in order. Each instance gets an identity
  when it is constructed.
\<close>

datatype vis_call = Constructed nat | Destroyed nat | Drawn nat

record Visualizer =
  sunburstRef :: "nat option"
  rectangularRef :: "nat option"
  holidayRef :: "nat option"
  holiday3DRef :: "nat option"
  rafIdRef :: bool
  startTimerPending :: bool
  instancesCreated :: nat
  calls :: "vis_call list"

text \<open>
  The props the effect and the animation closure read. The two canvases are mounted and
  the 2D context is available; \<open>construct3DFails\<close> says whether the constructor of the
  3D visualisation throws.
\<close>

record VisualizerProps =
  audioData :: bool
  analyserNodeRef :: bool
  propIsPlaying :: bool
  visualizationType :: VisualizationType
  construct3DFails :: bool

definition newVisualizer :: Visualizer where
  "newVisualizer =
     \<lparr> sunburstRef = None, rectangularRef = None, holidayRef = None, holiday3DRef = None,
       rafIdRef = False, startTimerPending = False, instancesCreated = 0, calls = [] \<rparr>"

text \<open>\<^verbatim>\<open>if (ref.current) { ref.current.destroy(); ref.current = null; }\<close> for each ref.\<close>

definition destroySunburst :: "Visualizer \<Rightarrow> Visualizer" where
  "destroySunburst v =
     (case sunburstRef v of
        Some i \<Rightarrow> v\<lparr>calls := calls v @ [Destroyed i], sunburstRef := None\<rparr>
      | None \<Rightarrow> v)"

definition destroyRectangular :: "Visualizer \<Rightarrow> Visualizer" where
  "destroyRectangular v =
     (case rectangularRef v of
        Some i \<Rightarrow> v\<lparr>calls := calls v @ [Destroyed i], rectangularRef := None\<rparr>
      | None \<Rightarrow> v)"

definition destroyHoliday :: "Visualizer \<Rightarrow> Visualizer" where
  "destroyHoliday v =
     (case holidayRef v of
        Some i \<Rightarrow> v\<lparr>calls := calls v @ [Destroyed i], holidayRef := None\<rparr>
      | None \<Rightarrow> v)"

definition destroyHoliday3D :: "Visualizer \<Rightarrow> Visualizer" where
  "destroyHoliday3D v =
     (case holiday3DRef v of
        Some i \<Rightarrow> v\<lparr>calls := calls v @ [Destroyed i], holiday3DRef := None\<rparr>
      | None \<Rightarrow> v)"

text \<open>
  The draw helpers: create the persistent instance if the ref is empty, then call its
  \<open>draw\<close>. The 3D helper returns without drawing when the constructor throws.
\<close>

definition drawSunburst :: "Visualizer \<Rightarrow> Visualizer" where
  "drawSunburst v =
     (case sunburstRef v of
        None \<Rightarrow>
          v\<lparr>sunburstRef := Some (instancesCreated v),
            calls := calls v @ [Constructed (instancesCreated v), Drawn (instancesCreated v)],
            instancesCreated := instancesCreated v + 1\<rparr>
      | Some i \<Rightarrow> v\<lparr>calls := calls v @ [Drawn i]\<rparr>)"

definition drawRectangular :: "Visualizer \<Rightarrow> Visualizer" where
  "drawRectangular v =
     (case rectangularRef v of
        None \<Rightarrow>
          v\<lparr>rectangularRef := Some (instancesCreated v),
            calls := calls v @ [Constructed (instancesCreated v), Drawn (instancesCreated v)],
            instancesCreated := instancesCreated v + 1\<rparr>
      | Some i \<Rightarrow> v\<lparr>calls := calls v @ [Drawn i]\<rparr>)"

definition drawHoliday :: "Visualizer \<Rightarrow> Visualizer" where
  "drawHoliday v =
     (case holidayRef v of
        None \<Rightarrow>
          v\<lparr>holidayRef := Some (instancesCreated v),
            calls := calls v @ [Constructed (instancesCreated v), Drawn (instancesCreated v)],
            instancesCreated := instancesCreated v + 1\<rparr>
      | Some i \<Rightarrow> v\<lparr>calls := calls v @ [Drawn i]\<rparr>)"

definition drawHoliday3D :: "bool \<Rightarrow> Visualizer \<Rightarrow> Visualizer" where
  "drawHoliday3D fails v =
     (case holiday3DRef v of
        None \<Rightarrow>
          if fails then v
          else v\<lparr>holiday3DRef := Some (instancesCreated v),
                  calls := calls v @ [Constructed (instancesCreated v), Drawn (instancesCreated v)],
                  instancesCreated := instancesCreated v + 1\<rparr>
      | Some i \<Rightarrow> v\<lparr>calls := calls v @ [Drawn i]\<rparr>)"

text \<open>
  One run of the \<open>animate\<close> closure created for the props \<open>pr\<close>: it requests the next
  frame and draws the visualisation of its type. The types without a visualisation class
  draw on the canvas directly.
\<close>

definition animate :: "VisualizerProps \<Rightarrow> Visualizer \<Rightarrow> Visualizer" where
  "animate pr v =
     (let v1 = v\<lparr>rafIdRef := True\<rparr>
      in case visualizationType pr of
           HOLIDAY_3D \<Rightarrow> drawHoliday3D (construct3DFails pr) v1
         | SUNBURST \<Rightarrow> drawSunburst v1
         | RECTANGULAR \<Rightarrow> drawRectangular v1
         | HOLIDAY \<Rightarrow> drawHoliday v1
         | _ \<Rightarrow> v1)"

text \<open>
  \<open>startVisualization\<close> runs \<open>animate\<close> at once, except for the 3D visualisation, whose
  first run is delayed by a 100 ms timer.
\<close>

definition startVisualization :: "VisualizerProps \<Rightarrow> Visualizer \<Rightarrow> Visualizer" where
  "startVisualization pr v =
     (if \<not> analyserNodeRef pr then v
      else if visualizationType pr = HOLIDAY_3D then v\<lparr>startTimerPending := True\<rparr>
      else animate pr v)"

text \<open>The effect with dependencies \<open>[audioData, isPlaying, visualizationType]\<close>.\<close>

definition visualizationEffect :: "VisualizerProps \<Rightarrow> Visualizer \<Rightarrow> Visualizer" where
  "visualizationEffect pr v =
     (if \<not> audioData pr \<or> \<not> analyserNodeRef pr then v
      else
        let v1 = (if visualizationType pr = HOLIDAY_3D
                  then destroyHoliday (destroyRectangular (destroySunburst v))
                  else destroyHoliday3D v)
        in if propIsPlaying pr then startVisualization pr v1
           else v1\<lparr>rafIdRef := False\<rparr>)"

text \<open>
  The cleanup function the effect returns; React runs it before the effect runs again.
  (It only cancels the pending animation frame, which is also what holds when the previous
  run returned early without a cleanup and had started no animation.)
\<close>

definition effectCleanup :: "Visualizer \<Rightarrow> Visualizer" where
  "effectCleanup v = v\<lparr>rafIdRef := False\<rparr>"

text \<open>The delayed first run of \<open>animate\<close> for the 3D visualisation.\<close>

definition startTimerFires :: "VisualizerProps \<Rightarrow> Visualizer \<Rightarrow> Visualizer" where
  "startTimerFires pr v = animate pr (v\<lparr>startTimerPending := False\<rparr>)"

text \<open>The cleanup of the mount effect, run when the component unmounts.\<close>

definition unmountCleanup :: "Visualizer \<Rightarrow> Visualizer" where
  "unmountCleanup v = destroyHoliday3D (destroyHoliday (destroyRectangular (destroySunburst v)))"

text \<open>
  A switch of the visualisation identifier: the parent re-renders the component with the
  new type, React runs the previous effect's cleanup and then the effect.
\<close>

definition switchVisualization :: "VisualizerProps \<Rightarrow> VisualizationType \<Rightarrow> Visualizer \<Rightarrow> Visualizer" where
  "switchVisualization pr newType v =
     visualizationEffect (pr\<lparr>visualizationType := newType\<rparr>) (effectCleanup v)"

text \<open>The instance a ref holds, as a list: empty for \<open>null\<close>.\<close>

definition refList :: "nat option \<Rightarrow> nat list" where
  "refList r = (case r of None \<Rightarrow> [] | Some i \<Rightarrow> [i])"

text \<open>A list of calls without a \<open>destroy\<close>.\<close>

definition no_destroy :: "vis_call list \<Rightarrow> bool" where
  "no_destroy cs = list_all (\<lambda>c. case c of Destroyed i \<Rightarrow> False | _ \<Rightarrow> True) cs"

text \<open>Props with audio loaded and playing, for a given visualisation type.\<close>

definition playingProps :: "VisualizationType \<Rightarrow> VisualizerProps" where
  "playingProps ty =
     \<lparr> audioData = True, analyserNodeRef = True, propIsPlaying = True,
       visualizationType = ty, construct3DFails = False \<rparr>"


section \<open>Properties of the audio analysis\<close>

lemma num_bounds: "0 \<le> num b" "num b \<le> 255"
proof -
  show "0 \<le> num b" by (simp only: num_def of_nat_0_le_iff)
  have "unat b < 2 ^ LENGTH(8)" by (rule unsigned_less)
  then have "unat b \<le> 255" by simp
  then have "real (unat b) \<le> real 255" by (rule of_nat_mono)
  then show "num b \<le> 255" by (simp only: num_def of_nat_numeral)
qed

lemma num_zero: "num 0 = 0"
  by (simp add: num_def)

lemma sum_loop_eq: "sum_loop data i acc = acc + sum_list (map num (drop i data))"
proof (induction data i acc rule: sum_loop.induct)
  case (1 data i acc)
  show ?case
  proof (cases "i < length data")
    case True
    then have "drop i data = data ! i # drop (i + 1) data"
      by (simp add: Cons_nth_drop_Suc)
    with True 1 show ?thesis
      by (simp add: sum_loop.simps [of data i])
  next
    case False
    then show ?thesis by (simp add: sum_loop.simps [of data i])
  qed
qed

lemma sum_list_num_bounds:
  "0 \<le> sum_list (map num data) \<and> sum_list (map num data) \<le> 255 * real (length data)"
proof (induction data)
  case Nil
  show ?case by simp
next
  case (Cons b data)
  have "0 \<le> num b" "num b \<le> 255" by (rule num_bounds)+
  with Cons show ?case by simp
qed

lemma average_frequency_mean:
  "data \<noteq> [] \<Longrightarrow> average_frequency data = Some (sum_list (map num data) / real (length data))"
  by (simp add: average_frequency_def sum_loop_eq)

lemma peaks_loop_eq:
  "peaks_loop data i ps = ps @ filter (is_peak data) [i..<length data - 1]"
proof (induction data i ps rule: peaks_loop.induct)
  case (1 data i ps)
  show ?case
  proof (cases "int i < int (length data) - 1")
    case True
    then have lt: "i < length data - 1" by linarith
    then have "[i..<length data - 1] = i # [i + 1..<length data - 1]"
      by (simp add: upt_conv_Cons)
    with True 1 show ?thesis
      by (simp add: peaks_loop.simps [of data i])
  next
    case False
    then have "\<not> i < length data - 1" by linarith
    with False show ?thesis by (simp add: peaks_loop.simps [of data i])
  qed
qed

lemma detect_peaks_filter: "detect_peaks data = filter (is_peak data) [1..<length data - 1]"
  by (simp add: detect_peaks_def peaks_loop_eq)

lemma getAnalysisData_with:
  "getAnalysisData (analyzer_with fd td) =
     Some \<lparr> frequencyData = fd, waveformData = fd, timeDomainData = td,
            averageFrequency = average_frequency fd, peaks = detect_peaks fd,
            bpm = None, instrumentPrediction = None \<rparr>"
  by (simp add: getAnalysisData_def analyzer_with_def)

lemma frequencyWeight_ge: "i < bassRange \<Longrightarrow> 0.3 \<le> frequencyWeight i bassRange"
proof -
  assume "i < bassRange"
  then have "real i / real bassRange \<le> 1" by simp
  then show ?thesis by (simp add: frequencyWeight_def)
qed

lemma bass_loop_weight:
  "0 \<le> w \<Longrightarrow> bass_loop data bassRange i (e, w) = (e', w') \<Longrightarrow>
    w + 0.3 * real (bassRange - i) \<le> w'"
proof (induction data bassRange i "(e, w)" arbitrary: e w rule: bass_loop.induct)
  case (1 data bassRange i energy weight)
  show ?case
  proof (cases "i < bassRange")
    case True
    have ge: "0.3 \<le> frequencyWeight i bassRange" using True by (rule frequencyWeight_ge)
    have rec: "bass_loop data bassRange (i + 1)
             (energy + (num (data ! i) / 255) * frequencyWeight i bassRange,
              weight + frequencyWeight i bassRange) = (e', w')"
      using "1.prems"(2) True by (simp add: bass_loop.simps [of data bassRange i])
    have "weight + frequencyWeight i bassRange + 0.3 * real (bassRange - (i + 1)) \<le> w'"
      using "1.hyps" [OF True _ rec] ge "1.prems"(1) by simp
    moreover have "real (bassRange - i) = real (bassRange - (i + 1)) + 1"
      using True by (simp add: of_nat_diff)
    ultimately show ?thesis using ge by linarith
  next
    case False
    with "1.prems" show ?thesis by (simp add: bass_loop.simps [of data bassRange i])
  qed
qed

lemma bass_loop_zero_energy:
  "\<forall>k < bassRange. data ! k = 0 \<Longrightarrow> fst (bass_loop data bassRange i (e, w)) = e"
proof (induction data bassRange i "(e, w)" arbitrary: e w rule: bass_loop.induct)
  case (1 data bassRange i energy weight)
  show ?case
  proof (cases "i < bassRange")
    case True
    then have z: "num (data ! i) = 0" using "1.prems" by (simp add: num_def)
    have "fst (bass_loop data bassRange (i + 1)
             (energy + (num (data ! i) / 255) * frequencyWeight i bassRange,
              weight + frequencyWeight i bassRange))
          = energy + (num (data ! i) / 255) * frequencyWeight i bassRange"
      using True "1.prems" by (rule "1.hyps")
    with True z show ?thesis by (simp add: bass_loop.simps [of data bassRange i])
  next
    case False
    then show ?thesis by (simp add: bass_loop.simps [of data bassRange i])
  qed
qed

lemma getBassEnergy_short: "length data < 10 \<Longrightarrow> getBassEnergy data = None"
  by (simp add: getBassEnergy_def bass_loop.simps [of data 0 0])

lemma getBassEnergy_silence:
  assumes zero: "set data \<subseteq> {0}" and len: "10 \<le> length data"
  shows "getBassEnergy data = Some 0"
proof -
  define B where "B = length data div 10"
  obtain e w where ew: "bass_loop data B 0 (0, 0) = (e, w)" by (cases "bass_loop data B 0 (0, 0)")
  have Bpos: "0 < B" and Ble: "B \<le> length data" using len by (simp_all add: B_def)
  have "\<forall>k < B. data ! k = 0"
  proof (intro allI impI)
    fix k assume "k < B"
    then have "data ! k \<in> set data" using Ble by simp
    then show "data ! k = 0" using zero by auto
  qed
  then have "fst (bass_loop data B 0 (0, 0)) = 0" by (rule bass_loop_zero_energy)
  then have e0: "e = 0" using ew by simp
  have "0 + 0.3 * real (B - 0) \<le> w" using ew by (intro bass_loop_weight) simp_all
  then have "0 < w" using Bpos by simp
  then show ?thesis using ew e0 by (simp add: getBassEnergy_def B_def [symmetric])
qed

lemma detect_peaks_silence: "set data \<subseteq> {0} \<Longrightarrow> detect_peaks data = []"
proof -
  assume zero: "set data \<subseteq> {0}"
  have "\<not> is_peak data i" if "i \<in> set [1..<length data - 1]" for i
  proof -
    from that have "i < length data - 1" by simp
    then have "i < length data" by linarith
    then have "data ! i \<in> set data" by simp
    then have "data ! i = 0" using zero by auto
    then show ?thesis by (simp add: is_peak_def num_zero)
  qed
  then show ?thesis by (simp add: detect_peaks_filter filter_empty_conv)
qed

subsection \<open>Silence\<close>

text \<open>
  C1, as stated, fails: for nine bins of silence \<open>bassRange\<close> is 0, the loop body never
  runs, and \<open>getBassEnergy\<close> returns \<open>0 / 0\<close>, which is NaN and not 0. The division is
  not guarded.
\<close>

theorem silence_short_array_counterexample:
  "getBassEnergy [0, 0, 0, 0, 0, 0, 0, 0, 0] = None"
  by (simp add: getBassEnergy_def bass_loop.simps)

text \<open>
  C1, amended: for every all-zero frequency array the list of beat onsets is empty, and
  the bass energy is 0 when the array has at least 10 bins (so that the weight sum is
  positive).
\<close>

theorem silence_features:
  assumes "set data \<subseteq> {0}"
  shows "map_option peaks (getAnalysisData (analyzer_with data td)) = Some []
         \<and> (10 \<le> length data \<longrightarrow> getBassEnergy data = Some 0)"
  using assms
  by (simp add: getAnalysisData_with detect_peaks_silence getBassEnergy_silence)

text \<open>The theorem at 20 bins of silence.\<close>

theorem silence_features_witness:
  "map_option peaks (getAnalysisData (analyzer_with (replicate 20 0) (replicate 20 128))) = Some []
   \<and> getBassEnergy (replicate 20 0) = Some 0"
  using silence_features [of "replicate 20 0" "replicate 20 128"]
  by simp

subsection \<open>Beat onsets\<close>

lemma spike_peaks: "filter (is_peak ([50, 50, 255, 50] @ replicate k 50)) [1..<k + 3] = [2]"
proof -
  let ?xs = "[50, 50, 255, 50] @ replicate k (50::byte)"
  have "[1..<3 + k] = [1..<3] @ [3..<3 + k]"
    by (rule upt_add_eq_append) simp
  moreover have "[1..<3] = [1, 2::nat]" by code_simp
  ultimately have split: "[1..<k + 3] = [1, 2] @ [3..<k + 3]"
    by (simp only: add.commute [of k 3])
  have tail: "filter (is_peak ?xs) [3..<k + 3] = []"
  proof -
    have "\<not> is_peak ?xs i" if "i \<in> set [3..<k + 3]" for i
    proof -
      from that have "3 \<le> i" "i < k + 4" by simp_all
      then have "?xs ! i = 50" by (simp add: nth_append nth_Cons')
      then show ?thesis by (simp add: is_peak_def num_def)
    qed
    then show ?thesis by (simp add: filter_empty_conv)
  qed
  have "is_peak ?xs 2" by (simp add: is_peak_def num_def)
  moreover have "\<not> is_peak ?xs 1" by (simp add: is_peak_def num_def)
  ultimately show ?thesis
    by (simp only: split filter_append filter.simps tail if_True if_False append_Nil2 append_Nil)
qed

text \<open>
  C2: the peak list of the analysis frame holds exactly the interior indices \<open>i\<close>
  (\<open>1 \<le> i \<le> N - 2\<close>) whose magnitude exceeds both neighbours and 200, in ascending
  order; for a single spike of 255 at index 2 among bins of 50 the list is \<open>[2]\<close>.
\<close>

theorem beat_onsets_characterised:
  "map_option peaks (getAnalysisData (analyzer_with data td)) = Some (detect_peaks data)
   \<and> detect_peaks data =
       filter (\<lambda>i. num (data ! i) > num (data ! (i - 1)) \<and> num (data ! i) > num (data ! (i + 1))
                    \<and> num (data ! i) > 200) [1..<length data - 1]
   \<and> sorted_wrt (<) (detect_peaks data)
   \<and> set (detect_peaks data) =
       {i. 1 \<le> i \<and> int i \<le> int (length data) - 2
           \<and> num (data ! i) > num (data ! (i - 1)) \<and> num (data ! i) > num (data ! (i + 1))
           \<and> num (data ! i) > 200}
   \<and> detect_peaks ([50, 50, 255, 50] @ replicate k 50) = [2]"
proof -
  have g: "map_option peaks (getAnalysisData (analyzer_with data td)) = Some (detect_peaks data)"
    by (simp add: getAnalysisData_with)
  have p: "is_peak data =
      (\<lambda>i. num (data ! i) > num (data ! (i - 1)) \<and> num (data ! i) > num (data ! (i + 1))
                    \<and> num (data ! i) > 200)"
    by (rule ext) (simp only: is_peak_def)
  have f: "detect_peaks data = filter (is_peak data) [1..<length data - 1]"
    by (rule detect_peaks_filter)
  have s: "sorted_wrt (<) (detect_peaks data)"
    unfolding f by (rule sorted_wrt_filter) simp
  have "set (detect_peaks data) =
       {i. 1 \<le> i \<and> int i \<le> int (length data) - 2 \<and> is_peak data i}"
    unfolding f by auto
  then have m: "set (detect_peaks data) =
       {i. 1 \<le> i \<and> int i \<le> int (length data) - 2
           \<and> num (data ! i) > num (data ! (i - 1)) \<and> num (data ! i) > num (data ! (i + 1))
           \<and> num (data ! i) > 200}"
    by (simp only: is_peak_def)
  have "length ([50, 50, 255, 50] @ replicate k (50::byte)) - 1 = k + 3"
    by simp
  then have sp: "detect_peaks ([50, 50, 255, 50] @ replicate k 50) = [2]"
    by (simp only: detect_peaks_filter spike_peaks)
  show ?thesis
    by (intro conjI g f [unfolded p] s m sp)
qed

subsection \<open>Average of the magnitudes\<close>

text \<open>
  C8, as stated, fails: for the one-bin array \<open>[255]\<close> the frame's \<open>averageFrequency\<close>
  is 255, which is neither the mean divided by 255 nor a value in \<open>[0, 1]\<close>.
\<close>

theorem average_not_normalised_counterexample:
  "map_option averageFrequency (getAnalysisData (analyzer_with [255] [128])) = Some (Some 255)"
  by (simp add: getAnalysisData_with average_frequency_def sum_loop.simps num_def)

text \<open>
  C8, amended: for every non-empty frequency array the frame's \<open>averageFrequency\<close> field
  is the arithmetic mean of the magnitudes and lies in \<open>[0, 255]\<close>; the frame does not
  divide it by 255. The quotient by 255 that the visualisations compute from it lies in
  \<open>[0, 1]\<close>.
\<close>

theorem average_frequency_is_mean:
  assumes "data \<noteq> []"
  shows "\<exists>m. map_option averageFrequency (getAnalysisData (analyzer_with data td)) = Some (Some m)
           \<and> m = sum_list (map num data) / real (length data)
           \<and> 0 \<le> m \<and> m \<le> 255 \<and> 0 \<le> m / 255 \<and> m / 255 \<le> 1"
proof -
  let ?m = "sum_list (map num data) / real (length data)"
  have len: "0 < real (length data)" using assms by simp
  have b: "0 \<le> sum_list (map num data)" "sum_list (map num data) \<le> 255 * real (length data)"
    using sum_list_num_bounds [of data] by simp_all
  have lo: "0 \<le> ?m" using b(1) len by simp
  have hi: "?m \<le> 255" using b(2) len by (simp add: pos_divide_le_eq)
  show ?thesis
    using assms lo hi by (simp add: getAnalysisData_with average_frequency_mean)
qed

text \<open>The theorem at the two-bin array \<open>[0, 255]\<close>.\<close>

theorem average_frequency_is_mean_witness:
  "\<exists>m. map_option averageFrequency (getAnalysisData (analyzer_with [0, 255] [128, 128])) = Some (Some m)
     \<and> m = 255 / 2 \<and> 0 \<le> m / 255 \<and> m / 255 \<le> 1"
  using average_frequency_is_mean [of "[0, 255]" "[128, 128]"]
  by (auto simp: num_def)

section \<open>Properties of the audio player\<close>

lemma player_inv_step: "player_inv c \<Longrightarrow> event_ok e c \<Longrightarrow> player_inv (player_step e c)"
  by (cases c; cases e)
     (auto simp: player_inv_def loadAudio_def play_def pause_def stop_def seekTo_def
        setVolume_def onended_def close_def Let_def split: option.splits if_splits)

lemma reachable_inv: "reachable c \<Longrightarrow> player_inv c"
proof (induction rule: reachable.induct)
  case init
  show ?case by (simp add: player_inv_def newAudioPlayer_def)
next
  case (step c e)
  then show ?case by (simp add: player_inv_step)
qed

lemma reachable_run: "reachable c \<Longrightarrow> events_ok es c \<Longrightarrow> reachable (run_player es c)"
proof (induction es arbitrary: c)
  case Nil
  then show ?case by simp
next
  case (Cons e es)
  from Cons.prems have "reachable (player_step e c)" by (simp add: reachable.step)
  moreover from Cons.prems have "events_ok es (player_step e c)" by simp
  ultimately show ?case using Cons.IH by simp
qed

lemmas player_defs =
  newAudioPlayer_def loadAudio_def play_def pause_def stop_def seekTo_def setVolume_def
  onended_def close_def getCurrentTime_def

subsection \<open>Pause and resume\<close>

text \<open>
  C4: in every reachable configuration where the player is playing, \<open>pause\<close> stores
  \<open>pauseTime = now - startTime\<close>, and \<open>play\<close> called at the same clock value creates a
  source seeded at \<open>pauseTime\<close>, sets \<open>startTime = now - pauseTime\<close> and is playing
  again at the position reported before the pause.
\<close>

theorem pause_play_round_trip:
  assumes "reachable (now, p)" and "isPlaying p"
  shows "pauseTime (pause now p) = now - startTime p
         \<and> \<not> isPlaying (pause now p)
         \<and> isPlaying (play now (pause now p))
         \<and> startTime (play now (pause now p)) = now - pauseTime (pause now p)
         \<and> map_option startOffset (sourceNode (play now (pause now p))) = Some (pauseTime (pause now p))
         \<and> getCurrentTime now (play now (pause now p)) = getCurrentTime now p"
proof -
  from assms(1) have "player_inv (now, p)" by (rule reachable_inv)
  with assms(2) have src: "sourceNode p \<noteq> None" and buf: "currentBuffer p \<noteq> None"
    and an: "playerAnalyserNode p" and le: "startTime p \<le> now"
    by (simp_all add: player_inv_def)
  show ?thesis
    using assms(2) src buf an le
    by (auto simp: pause_def play_def getCurrentTime_def Let_def)
qed

text \<open>The theorem after loading a buffer, starting playback and five seconds of clock.\<close>

theorem pause_play_round_trip_witness:
  "getCurrentTime 5 (snd (run_player [LoadAudio 100, Play, Tick 5] (0, newAudioPlayer))) = 5
   \<and> getCurrentTime 5 (play 5 (pause 5 (snd (run_player [LoadAudio 100, Play, Tick 5] (0, newAudioPlayer))))) = 5
   \<and> isPlaying (play 5 (pause 5 (snd (run_player [LoadAudio 100, Play, Tick 5] (0, newAudioPlayer)))))"
proof -
  let ?c = "run_player [LoadAudio 100, Play, Tick 5] (0, newAudioPlayer)"
  have c: "?c = (5, snd ?c)" by (simp add: player_defs Let_def)
  have "reachable ?c"
    by (rule reachable_run [OF reachable.init]) (simp add: player_defs Let_def)
  then have r: "reachable (5, snd ?c)" using c by simp
  have pl: "isPlaying (snd ?c)" by (simp add: player_defs Let_def)
  have "getCurrentTime 5 (snd ?c) = 5" by (simp add: player_defs Let_def)
  then show ?thesis using pause_play_round_trip [OF r pl] by simp
qed

subsection \<open>Playing requires a buffer\<close>

text \<open>
  C9: \<open>play\<close> leaves the player unchanged when no buffer is loaded, and in every
  reachable configuration \<open>isPlaying\<close> implies that a buffer is loaded.
\<close>

theorem playing_requires_buffer:
  "(currentBuffer p = None \<longrightarrow> play now p = p)
   \<and> (reachable (now, p) \<and> isPlaying p \<longrightarrow> currentBuffer p \<noteq> None)"
proof (intro conjI impI)
  assume "currentBuffer p = None"
  then show "play now p = p" by (simp add: play_def)
next
  assume a: "reachable (now, p) \<and> isPlaying p"
  then have "player_inv (now, p)" by (simp add: reachable_inv)
  with a show "currentBuffer p \<noteq> None" by (simp add: player_inv_def)
qed

text \<open>The theorem at the fresh player and after loading a buffer and starting playback.\<close>

theorem playing_requires_buffer_witness:
  "play 0 newAudioPlayer = newAudioPlayer
   \<and> isPlaying (snd (run_player [LoadAudio 100, Play] (0, newAudioPlayer)))
   \<and> currentBuffer (snd (run_player [LoadAudio 100, Play] (0, newAudioPlayer))) \<noteq> None"
proof -
  let ?c = "run_player [LoadAudio 100, Play] (0, newAudioPlayer)"
  have c: "?c = (0, snd ?c)" by (simp add: player_defs Let_def)
  have "reachable ?c"
    by (rule reachable_run [OF reachable.init]) (simp add: player_defs Let_def)
  then have r: "reachable (0, snd ?c)" using c by simp
  have pl: "isPlaying (snd ?c)" by (simp add: player_defs Let_def)
  have n: "currentBuffer newAudioPlayer = None" by (simp add: newAudioPlayer_def)
  show ?thesis
    using playing_requires_buffer [of newAudioPlayer 0] playing_requires_buffer [of "snd ?c" 0]
      r pl n by blast
qed

subsection \<open>Volume\<close>

text \<open>
  C10: in every reachable configuration \<open>setVolume v\<close> stores \<open>v\<close> clamped into
  \<open>[0, 1]\<close>: 0 for a value below 0, 1 for a value above 1, and \<open>v\<close> otherwise.
\<close>

theorem setVolume_clamps:
  assumes "reachable (now, p)"
  shows "\<exists>g. gainNode (setVolume v p) = Some g
           \<and> g = (if v < 0 then 0 else if v > 1 then 1 else v)
           \<and> 0 \<le> g \<and> g \<le> 1"
proof -
  from assms have "player_inv (now, p)" by (rule reachable_inv)
  then obtain g0 where "gainNode p = Some g0" by (auto simp: player_inv_def)
  then show ?thesis by (auto simp: setVolume_def Let_def)
qed

text \<open>The theorem at the fresh player, for a value above, below and inside the range.\<close>

theorem setVolume_clamps_witness:
  "gainNode (setVolume 2 newAudioPlayer) = Some 1
   \<and> gainNode (setVolume (- 3) newAudioPlayer) = Some 0
   \<and> gainNode (setVolume 0.25 newAudioPlayer) = Some 0.25"
  using setVolume_clamps [OF reachable.init, of 2] setVolume_clamps [OF reachable.init, of "- 3"]
    setVolume_clamps [OF reachable.init, of "0.25"]
  by (auto simp: eq_divide_eq)

subsection \<open>The ended event of a replaced source\<close>

text \<open>
  C7 does not hold for the player: after \<open>seekTo\<close> during playback has replaced source 0
  by source 1, the ended event of source 0 clears \<open>isPlaying\<close> and resets \<open>pauseTime\<close>
  although source 1 is the active source. The handler of the App component, in the same
  situation, leaves its transport state unchanged, and stops and resets it for the ended
  event of the active source 1.
\<close>

theorem stale_ended_stops_player:
  "map_option sourceId (sourceNode (snd (run_player [LoadAudio 100, Play, Tick 5, SeekTo 50] (0, newAudioPlayer)))) = Some 1
   \<and> isPlaying (snd (run_player [LoadAudio 100, Play, Tick 5, SeekTo 50] (0, newAudioPlayer)))
   \<and> pauseTime (snd (run_player [LoadAudio 100, Play, Tick 5, SeekTo 50] (0, newAudioPlayer))) = 50
   \<and> \<not> isPlaying (snd (run_player [LoadAudio 100, Play, Tick 5, SeekTo 50, Ended 0] (0, newAudioPlayer)))
   \<and> pauseTime (snd (run_player [LoadAudio 100, Play, Tick 5, SeekTo 50, Ended 0] (0, newAudioPlayer))) = 0
   \<and> app_onended 0 \<lparr>appIsPlaying = True, appIsPaused = False, appCurrentTime = 50,
        pauseTimeRef = 50, startTimeRef = - 45, sourceNodeRef = Some 1\<rparr>
      = \<lparr>appIsPlaying = True, appIsPaused = False, appCurrentTime = 50,
        pauseTimeRef = 50, startTimeRef = - 45, sourceNodeRef = Some 1\<rparr>
   \<and> app_onended 1 \<lparr>appIsPlaying = True, appIsPaused = False, appCurrentTime = 50,
        pauseTimeRef = 50, startTimeRef = - 45, sourceNodeRef = Some 1\<rparr>
      = \<lparr>appIsPlaying = False, appIsPaused = False, appCurrentTime = 0,
        pauseTimeRef = 0, startTimeRef = - 45, sourceNodeRef = Some 1\<rparr>"
  by (simp add: player_defs app_onended_def Let_def)

section \<open>Properties of the hue transition\<close>













lemma updateElements_hue_inherited:
  assumes "instrumentPrediction a = Some l" and "l \<noteq> []" and "targetHueOf l = None"
  shows "currentHue (updateElements vis a now random) = None"
  using assms by (simp add: updateElements_def Let_def split: option.splits)

lemma updateElements_sticky:
  "\<not> truthy (instrumentPrediction a) \<Longrightarrow>
     currentHue (updateElements vis a now random) = currentHue vis"
  by (simp add: updateElements_def truthy_def Let_def split: option.splits)








section \<open>Properties of the element update\<close>

lemma active_updateElementAnimation:
  "active (updateElementAnimation t scheme now r e energy) =
     (case pattern e of
        BLINK \<Rightarrow> sin (t * 5 * energy) > 0
      | TWINKLE \<Rightarrow> (if r < energy * 0.2 then \<not> active e else active e)
      | STROBE \<Rightarrow> (case strobePhase (state e) of None \<Rightarrow> False
                    | Some p \<Rightarrow> js_rem (p + energy * 0.5) 1 < 0.5)
      | _ \<Rightarrow> active e)"
  by (cases "pattern e")
     (simp_all add: updateElementAnimation_def Let_def split: option.splits)

lemma active_updateElement:
  "active (updateElement vis data now r e) =
     (let energy = bandEnergy (dominantInstrument vis) data e in
      case pattern e of
        BLINK \<Rightarrow> sin (time vis * 5 * energy) > 0
      | TWINKLE \<Rightarrow> (if r < energy * 0.2 then \<not> (energy > 0.3 \<or> active e)
                     else (energy > 0.3 \<or> active e))
      | STROBE \<Rightarrow> (case strobePhase (state e) of None \<Rightarrow> False
                    | Some p \<Rightarrow> js_rem (p + energy * 0.5) 1 < 0.5)
      | _ \<Rightarrow> (energy > 0.3 \<or> active e))"
  by (cases "pattern e")
     (simp_all add: updateElement_def active_updateElementAnimation Let_def)

lemma nth_map_enumerate:
  "i < length xs \<Longrightarrow> map (\<lambda>(j, x). f j x) (enumerate 0 xs) ! i = f i (xs ! i)"
  by (simp add: nth_enumerate_eq)

lemma updateElements_nth:
  assumes "i < length (elements vis)"
  shows "elements (updateElements vis a now random) ! i =
           updateElement
             (vis\<lparr>dominantInstrument := dominantInstrument (updateElements vis a now random),
                  currentHue := currentHue (updateElements vis a now random)\<rparr>)
             (frequencyData a) now (random i) (elements vis ! i)"
proof (cases "instrumentPrediction a")
  case None
  with assms show ?thesis
    by (simp add: updateElements_def Let_def nth_enumerate_eq)
next
  case (Some label)
  with assms show ?thesis
    by (cases "label = []") (simp_all add: updateElements_def Let_def nth_enumerate_eq)
qed

lemma updateElements_length:
  "length (elements (updateElements vis a now random)) = length (elements vis)"
  by (simp add: updateElements_def Let_def split: option.splits)

lemma energy_loop_full_scale:
  "hi < n \<Longrightarrow> i \<le> hi + 1 \<Longrightarrow>
     energy_loop (replicate n 255) hi i (e, c) = (e + real (hi + 1 - i), c + (hi + 1 - i))"
proof (induction "replicate n (255::byte)" hi i "(e, c)" arbitrary: e c rule: energy_loop.induct)
  case (1 maxFreq i energy count)
  show ?case
  proof (cases "i \<le> maxFreq")
    case True
    then have lt: "i < n" using "1.prems" by simp
    have cond: "i \<le> maxFreq \<and> i < length (replicate n (255::byte))" using True lt by simp
    have n255: "num (replicate n 255 ! i) / 255 = 1" using lt by (simp add: num_def)
    have "energy_loop (replicate n 255) maxFreq (i + 1) (energy + num (replicate n 255 ! i) / 255, count + 1)
          = (energy + num (replicate n 255 ! i) / 255 + real (maxFreq + 1 - (i + 1)),
             count + 1 + (maxFreq + 1 - (i + 1)))"
      using cond "1.prems" True by (intro "1.hyps") simp_all
    moreover have "real (maxFreq + 1 - i) = 1 + real (maxFreq + 1 - (i + 1))"
      using True by (simp add: of_nat_diff)
    moreover have "maxFreq + 1 - i = 1 + (maxFreq + 1 - (i + 1))" using True by simp
    ultimately show ?thesis
      using cond n255 by (simp add: energy_loop.simps [of _ maxFreq i])
  next
    case False
    then have "energy_loop (replicate n 255) maxFreq i (energy, count) = (energy, count)"
      by (simp add: energy_loop.simps [of _ maxFreq i])
    moreover have "maxFreq + 1 - i = 0" using False by simp
    ultimately show ?thesis by simp
  qed
qed

lemma bandEnergy_full_scale:
  assumes "freqRange e = (lo, hi)" "lo \<le> hi" "hi < n"
    and "\<not> (truthy (instrument e) \<and> dominant = instrument e)"
  shows "bandEnergy dominant (replicate n 255) e = 1"
proof -
  have "energy_loop (replicate n 255) hi lo (0, 0) = (0 + real (hi + 1 - lo), 0 + (hi + 1 - lo))"
    using assms by (intro energy_loop_full_scale) simp_all
  moreover have "0 < hi + 1 - lo" using assms by simp
  ultimately show ?thesis using assms by (simp add: bandEnergy_def)
qed

text \<open>
  C5, amended: after the update of a tick, an element whose band energy exceeds 0.3 is
  active when its pattern is STATIC, CHASE, WAVE, FADE or ALTERNATE. For BLINK, STROBE
  and TWINKLE the pattern rule runs after the floor and decides: BLINK sets \<open>active\<close> to
  \<open>sin (time * 5 * energy) > 0\<close>, STROBE to \<open>strobePhase < 0.5\<close> for the advanced phase,
  and TWINKLE switches the element off when its random draw is below \<open>energy * 0.2\<close>.
\<close>

theorem element_activation_floor:
  assumes "i < length (elements vis)"
    and "e = elements vis ! i"
    and "e' = elements (updateElements vis a now random) ! i"
    and "energy = bandEnergy (dominantInstrument (updateElements vis a now random)) (frequencyData a) e"
    and "energy > 0.3"
  shows "(pattern e \<in> {STATIC, CHASE, WAVE, FADE, ALTERNATE} \<longrightarrow> active e')
         \<and> (pattern e = BLINK \<longrightarrow> active e' = (sin (time vis * 5 * energy) > 0))
         \<and> (pattern e = STROBE \<longrightarrow>
              active e' = (case strobePhase (state e) of None \<Rightarrow> False
                           | Some p \<Rightarrow> js_rem (p + energy * 0.5) 1 < 0.5))
         \<and> (pattern e = TWINKLE \<longrightarrow> active e' = (\<not> random i < energy * 0.2))"
proof -
  let ?vis1 = "vis\<lparr>dominantInstrument := dominantInstrument (updateElements vis a now random),
                  currentHue := currentHue (updateElements vis a now random)\<rparr>"
  have e': "e' = updateElement ?vis1 (frequencyData a) now (random i) e"
    using assms(1,2,3) by (simp add: updateElements_nth)
  have en: "bandEnergy (dominantInstrument ?vis1) (frequencyData a) e = energy"
    using assms(4) by simp
  have t: "time ?vis1 = time vis" by simp
  show ?thesis
    unfolding e' active_updateElement en t Let_def
    using assms(5) by (cases "pattern e") simp_all
qed

text \<open>
  C5, as stated, fails: on the first full-scale frame the star (pattern STROBE, created
  active with phase 0) has band energy 1, its phase advances to 0.5, and the element ends
  the tick inactive.
\<close>

theorem strobe_floor_counterexample:
  "bandEnergy None (frequencyData fullScaleFrame) star = 1
   \<and> \<not> active (elements (updateElements
        \<lparr>elements = [star], time = 0.01, dominantInstrument = None, currentHue = Some 0,
          colorScheme = [''#1a237e'', ''#283593'']\<rparr> fullScaleFrame 0 (constantDraws 0.5)) ! 0)"
proof -
  have en: "bandEnergy None (replicate 1024 255) star = 1"
    by (rule bandEnergy_full_scale [of _ 100 120]) (simp_all add: star_def)
  have "js_rem (1 / 2) 1 = 1 / 2" by (simp add: js_rem_def)
  then show ?thesis
    using en
    by (simp add: updateElements_def updateElement_def updateElementAnimation_def
        fullScaleFrame_def truthy_def Let_def star_def)
qed

text \<open>The theorem at the gift box (pattern ALTERNATE), switched off, on a full-scale frame.\<close>

theorem element_activation_floor_witness:
  "active (elements (updateElements
        \<lparr>elements = [gift\<lparr>active := False\<rparr>], time = 0.01, dominantInstrument = None,
          currentHue = Some 0, colorScheme = [''#1a237e'', ''#283593'']\<rparr>
        fullScaleFrame 0 (constantDraws 0.5)) ! 0)"
proof -
  let ?vis = "\<lparr>elements = [gift\<lparr>active := False\<rparr>], time = 0.01, dominantInstrument = None,
          currentHue = Some 0, colorScheme = [''#1a237e'', ''#283593'']\<rparr>"
  have dom: "dominantInstrument (updateElements ?vis fullScaleFrame 0 (constantDraws 0.5)) = None"
    by (simp add: updateElements_def fullScaleFrame_def truthy_def Let_def)
  have en: "bandEnergy None (replicate 1024 255) (gift\<lparr>active := False\<rparr>) = 1"
    by (rule bandEnergy_full_scale [of _ 50 100]) (simp_all add: gift_def)
  have "pattern (gift\<lparr>active := False\<rparr>) \<in> {STATIC, CHASE, WAVE, FADE, ALTERNATE}"
    by (simp add: gift_def)
  then show ?thesis
    using element_activation_floor [where vis = ?vis and i = 0 and a = fullScaleFrame
        and now = 0 and random = "constantDraws 0.5" and e = "gift\<lparr>active := False\<rparr>"
        and energy = 1, OF _ _ refl] dom en
    by (simp add: fullScaleFrame_def)
qed

section \<open>Properties of the visualisation switch\<close>

lemmas destroy_defs = destroySunburst_def destroyRectangular_def destroyHoliday_def destroyHoliday3D_def
lemmas draw_defs = drawSunburst_def drawRectangular_def drawHoliday_def drawHoliday3D_def

lemma animate_appends:
  "\<exists>more. calls (animate pr v) = calls v @ more \<and> no_destroy more"
  by (cases "visualizationType pr")
     (auto simp: animate_def draw_defs no_destroy_def Let_def split: option.splits)

lemma animate_refs:
  "holiday3DRef v = None \<Longrightarrow> visualizationType pr \<noteq> HOLIDAY_3D \<Longrightarrow> holiday3DRef (animate pr v) = None"
  "visualizationType pr \<noteq> HOLIDAY_3D \<Longrightarrow> sunburstRef v \<noteq> None \<Longrightarrow> sunburstRef (animate pr v) = sunburstRef v"
  "visualizationType pr \<noteq> HOLIDAY_3D \<Longrightarrow> rectangularRef v \<noteq> None \<Longrightarrow> rectangularRef (animate pr v) = rectangularRef v"
  "visualizationType pr \<noteq> HOLIDAY_3D \<Longrightarrow> holidayRef v \<noteq> None \<Longrightarrow> holidayRef (animate pr v) = holidayRef v"
  by (cases "visualizationType pr";
      auto simp: animate_def draw_defs Let_def split: option.splits)+

lemma switch_calls:
  assumes "audioData pr" and "analyserNodeRef pr"
    and "v' = switchVisualization pr newType v"
  shows "(newType = HOLIDAY_3D \<longrightarrow>
            calls v' = calls v @ map Destroyed
                         (refList (sunburstRef v) @ refList (rectangularRef v) @ refList (holidayRef v))
            \<and> sunburstRef v' = None \<and> rectangularRef v' = None \<and> holidayRef v' = None
            \<and> holiday3DRef v' = holiday3DRef v)
         \<and> (newType \<noteq> HOLIDAY_3D \<longrightarrow>
              (\<exists>more. calls v' = calls v @ map Destroyed (refList (holiday3DRef v)) @ more
                       \<and> no_destroy more)
              \<and> holiday3DRef v' = None
              \<and> (sunburstRef v \<noteq> None \<longrightarrow> sunburstRef v' = sunburstRef v)
              \<and> (rectangularRef v \<noteq> None \<longrightarrow> rectangularRef v' = rectangularRef v)
              \<and> (holidayRef v \<noteq> None \<longrightarrow> holidayRef v' = holidayRef v))
         \<and> (\<exists>more. calls (animate (pr\<lparr>visualizationType := newType\<rparr>) v') = calls v' @ more
                     \<and> no_destroy more)"
proof (intro conjI impI)
  show "\<exists>more. calls (animate (pr\<lparr>visualizationType := newType\<rparr>) v') = calls v' @ more
                     \<and> no_destroy more"
    by (rule animate_appends)
next
  assume t: "newType = HOLIDAY_3D"
  have v': "v' = (let v1 = destroyHoliday (destroyRectangular (destroySunburst (effectCleanup v)))
            in if propIsPlaying pr then v1\<lparr>startTimerPending := True\<rparr> else v1\<lparr>rafIdRef := False\<rparr>)"
    using assms t
    by (simp add: switchVisualization_def visualizationEffect_def startVisualization_def Let_def)
  show "calls v' = calls v @ map Destroyed
                         (refList (sunburstRef v) @ refList (rectangularRef v) @ refList (holidayRef v))"
    unfolding v' by (simp add: destroy_defs effectCleanup_def refList_def Let_def split: option.splits)
  show "sunburstRef v' = None" "rectangularRef v' = None" "holidayRef v' = None"
      "holiday3DRef v' = holiday3DRef v"
    unfolding v' by (simp_all add: destroy_defs effectCleanup_def Let_def split: option.splits)
next
  assume t: "newType \<noteq> HOLIDAY_3D"
  let ?pr = "pr\<lparr>visualizationType := newType\<rparr>"
  let ?v1 = "destroyHoliday3D (effectCleanup v)"
  have v': "v' = (if propIsPlaying pr then animate ?pr ?v1 else ?v1\<lparr>rafIdRef := False\<rparr>)"
    using assms t
    by (simp add: switchVisualization_def visualizationEffect_def startVisualization_def Let_def)
  have c1: "calls ?v1 = calls v @ map Destroyed (refList (holiday3DRef v))"
    and r1: "holiday3DRef ?v1 = None" "sunburstRef ?v1 = sunburstRef v"
       "rectangularRef ?v1 = rectangularRef v" "holidayRef ?v1 = holidayRef v"
    by (simp_all add: destroy_defs effectCleanup_def refList_def split: option.splits)
  have ty: "visualizationType ?pr \<noteq> HOLIDAY_3D" using t by simp
  show "\<exists>more. calls v' = calls v @ map Destroyed (refList (holiday3DRef v)) @ more
                       \<and> no_destroy more"
  proof (cases "propIsPlaying pr")
    case True
    obtain more where "calls (animate ?pr ?v1) = calls ?v1 @ more" "no_destroy more"
      using animate_appends by blast
    then show ?thesis using True v' c1 by auto
  next
    case False
    then have "calls v' = calls v @ map Destroyed (refList (holiday3DRef v)) @ []"
      using v' c1 by simp
    moreover have "no_destroy []" by (simp add: no_destroy_def)
    ultimately show ?thesis by blast
  qed
  show "holiday3DRef v' = None"
    using v' r1(1) animate_refs(1) [OF r1(1) ty] by simp
  show "sunburstRef v' = sunburstRef v" if "sunburstRef v \<noteq> None"
    using v' r1(2) animate_refs(2) [OF ty, of ?v1] that by simp
  show "rectangularRef v' = rectangularRef v" if "rectangularRef v \<noteq> None"
    using v' r1(3) animate_refs(3) [OF ty, of ?v1] that by simp
  show "holidayRef v' = holidayRef v" if "holidayRef v \<noteq> None"
    using v' r1(4) animate_refs(4) [OF ty, of ?v1] that by simp
qed

text \<open>
  C6, amended: with audio loaded, a switch to the 3D visualisation calls \<open>destroy\<close> once
  on each instance held by the sunburst, rectangular and holiday refs, clears these refs
  and makes no other call. A switch to any other type calls \<open>destroy\<close> once on the
  instance held by the 3D ref, if there is one, and clears that ref; it keeps every 2D ref
  that holds an instance and makes no other \<open>destroy\<close> call, so that it makes no
  \<open>destroy\<close> call at all when no 3D instance exists. The calls made for the new type,
  in the switch, by the delayed 3D start and by later runs of \<open>animate\<close>, come after
  these and contain no \<open>destroy\<close>.
\<close>

theorem switch_destroys_other_family:
  assumes "audioData pr" and "analyserNodeRef pr"
    and "v' = switchVisualization pr newType v"
  shows "(newType = HOLIDAY_3D \<longrightarrow>
            calls v' = calls v @ map Destroyed
                         (refList (sunburstRef v) @ refList (rectangularRef v) @ refList (holidayRef v))
            \<and> sunburstRef v' = None \<and> rectangularRef v' = None \<and> holidayRef v' = None
            \<and> holiday3DRef v' = holiday3DRef v)
         \<and> (newType \<noteq> HOLIDAY_3D \<longrightarrow>
              (\<exists>more. calls v' = calls v @ map Destroyed (refList (holiday3DRef v)) @ more
                       \<and> no_destroy more)
              \<and> holiday3DRef v' = None
              \<and> (sunburstRef v \<noteq> None \<longrightarrow> sunburstRef v' = sunburstRef v)
              \<and> (rectangularRef v \<noteq> None \<longrightarrow> rectangularRef v' = rectangularRef v)
              \<and> (holidayRef v \<noteq> None \<longrightarrow> holidayRef v' = holidayRef v))
         \<and> (newType \<noteq> HOLIDAY_3D \<and> holiday3DRef v = None \<longrightarrow>
              (\<exists>more. calls v' = calls v @ more \<and> no_destroy more))
         \<and> (\<exists>more. calls (animate (pr\<lparr>visualizationType := newType\<rparr>) v') = calls v' @ more
                     \<and> no_destroy more)
         \<and> (\<exists>more. calls (startTimerFires (pr\<lparr>visualizationType := newType\<rparr>) v')
                       = calls v' @ more \<and> no_destroy more)"
proof -
  note base = switch_calls [OF assms]
  have none: "newType \<noteq> HOLIDAY_3D \<and> holiday3DRef v = None \<longrightarrow>
              (\<exists>more. calls v' = calls v @ more \<and> no_destroy more)"
  proof (intro impI)
    assume a: "newType \<noteq> HOLIDAY_3D \<and> holiday3DRef v = None"
    then obtain more where
      "calls v' = calls v @ map Destroyed (refList (holiday3DRef v)) @ more" "no_destroy more"
      using base by blast
    with a have "calls v' = calls v @ more \<and> no_destroy more" by (simp add: refList_def)
    then show "\<exists>more. calls v' = calls v @ more \<and> no_destroy more" by blast
  qed
  have timer: "\<exists>more. calls (startTimerFires (pr\<lparr>visualizationType := newType\<rparr>) v')
                       = calls v' @ more \<and> no_destroy more"
    using animate_appends [of "pr\<lparr>visualizationType := newType\<rparr>" "v'\<lparr>startTimerPending := False\<rparr>"]
    by (simp add: startTimerFires_def)
  show ?thesis using base none timer by blast
qed

text \<open>
  C6, as stated, fails: after the sunburst visualisation has drawn, a switch to the
  holiday visualisation constructs and draws the new instance, and the sunburst instance
  is neither destroyed nor released.
\<close>

theorem persistent_instance_counterexample:
  "calls (switchVisualization (playingProps SUNBURST) HOLIDAY
            (visualizationEffect (playingProps SUNBURST) newVisualizer))
     = [Constructed 0, Drawn 0, Constructed 1, Drawn 1]
   \<and> sunburstRef (switchVisualization (playingProps SUNBURST) HOLIDAY
            (visualizationEffect (playingProps SUNBURST) newVisualizer)) = Some 0"
  by (simp add: switchVisualization_def visualizationEffect_def startVisualization_def
      effectCleanup_def animate_def playingProps_def newVisualizer_def destroy_defs draw_defs
      Let_def)

text \<open>
  The theorem at a switch from the sunburst to the 3D visualisation, and at the switch
  back to the holiday visualisation after the 3D instance has drawn.
\<close>

theorem switch_destroys_other_family_witness:
  "calls (switchVisualization (playingProps SUNBURST) HOLIDAY_3D
            (visualizationEffect (playingProps SUNBURST) newVisualizer))
     = [Constructed 0, Drawn 0, Destroyed 0]
   \<and> calls (switchVisualization (playingProps HOLIDAY_3D) HOLIDAY
        (startTimerFires (playingProps HOLIDAY_3D)
          (switchVisualization (playingProps SUNBURST) HOLIDAY_3D
            (visualizationEffect (playingProps SUNBURST) newVisualizer))))
     = [Constructed 0, Drawn 0, Destroyed 0, Constructed 1, Drawn 1, Destroyed 1,
        Constructed 2, Drawn 2]"
  using
    switch_destroys_other_family [where pr = "playingProps SUNBURST" and newType = HOLIDAY_3D
      and v = "visualizationEffect (playingProps SUNBURST) newVisualizer", OF _ _ refl]
    switch_destroys_other_family [where pr = "playingProps HOLIDAY_3D" and newType = HOLIDAY
      and v = "startTimerFires (playingProps HOLIDAY_3D)
          (switchVisualization (playingProps SUNBURST) HOLIDAY_3D
            (visualizationEffect (playingProps SUNBURST) newVisualizer))", OF _ _ refl]
  by (simp add: switchVisualization_def visualizationEffect_def startVisualization_def
      startTimerFires_def effectCleanup_def animate_def playingProps_def newVisualizer_def
      destroy_defs draw_defs refList_def Let_def)


end
